theory Spec2Isabelle
  imports Complex_Main "HOL-Library.AList"
begin

section \<open>Data model\<close>

text \<open>
  The converter reads a GeoDataFrame through its GeoJSON view. A vertex \<open>c\<close> of a
  Multipatch ring is the coordinate triple \<open>(c[0], c[1], c[2])\<close>; a coordinate is
  the real that the Python float denotes. A ring is the list of its vertices, and an entry of
  \<open>feature['geometry']['coordinates']\<close> is a GeoJSON polygon: its exterior ring
  (index 0) followed by its interior rings. The types hold the well-formed inputs only:
  every vertex has its three coordinates and every polygon its exterior ring, so the
  \<open>IndexError\<close> of a missing Z or of a polygon without rings is outside the model.
\<close>

type_synonym point = "real \<times> real \<times> real"

type_synonym ring = "point list"

type_synonym multipatch_polygon = "ring \<times> ring list"

definition c0 :: "point \<Rightarrow> real" where
  "c0 c = fst c"

definition c1 :: "point \<Rightarrow> real" where
  "c1 c = fst (snd c)"

definition c2 :: "point \<Rightarrow> real" where
  "c2 c = snd (snd c)"

definition exterior :: "multipatch_polygon \<Rightarrow> ring" where
  "exterior multipatch_polygon = fst multipatch_polygon"

text \<open>The flat polygon \<open>Polygon(xy_coords)\<close> built from a sequence of (x, y) pairs.\<close>

datatype polygon = Polygon "(real \<times> real) list"

text \<open>
  Values held by a Python dictionary of feature attributes: the JSON scalars of the
  source properties, the geometry object stored under \<open>'geometry'\<close>, and the two
  infinities that float arithmetic gives on overflow (\<open>JInfinity True\<close> is \<open>inf\<close>,
  \<open>JInfinity False\<close> is \<open>-inf\<close>). A number is the real it denotes; the numbers read
  from the GeoJSON view are finite doubles.
\<close>

datatype val = JNull | JBool bool | JNum real | JStr string | Geom polygon | JInfinity bool

text \<open>
  A Python \<open>dict\<close> is an association list with distinct keys in insertion order;
  \<open>d[k] = v\<close> is \<open>AList.update k v d\<close> (replace in place, or append a new key).
\<close>

type_synonym pydict = "(string \<times> val) list"

record feature =
  properties :: pydict
  coordinates :: "multipatch_polygon list"

datatype crs = EPSG nat | Other_CRS string

record 'a geodataframe =
  features :: "'a list"
  crs :: crs

datatype driver = GeoJSON | ESRI_Shapefile

text \<open>
  The two \<open>NameError\<close>s the function raises, by their argument:
  \<open>'wrongUnits'\<close> and \<open>'wrongFormat'\<close>; and the error with which GeoPandas refuses
  a frame that has no geometry column (lines 119 to 125).
\<close>

datatype error = WrongUnits | WrongFormat | NoGeometryColumn

text \<open>
  The two diagnostic texts handed to \<open>print\<close>: the one about height units (line 113)
  and the one about the output file format (line 137).
\<close>

datatype message = Wrong_units_text | Wrong_format_text

text \<open>What a call does to the outside world: lines printed and files written.\<close>

datatype effect = Printed message | Wrote_file string driver "pydict geodataframe"

section \<open>Statements with exceptions and effects\<close>

text \<open>
  A statement either completes with a value or raises; either way it leaves the list of
  effects it performed. Sequencing runs the second statement only when the first
  completed, which is how code after a \<open>raise\<close> behaves.
\<close>

type_synonym 'a run = "(error + 'a) \<times> effect list"

definition ret :: "'a \<Rightarrow> 'a run" where
  "ret x = (Inr x, [])"

definition raise :: "error \<Rightarrow> 'a run" where
  "raise e = (Inl e, [])"

definition print_line :: "message \<Rightarrow> unit run" where
  "print_line m = (Inr (), [Printed m])"

definition to_file :: "string \<Rightarrow> driver \<Rightarrow> pydict geodataframe \<Rightarrow> unit run" where
  "to_file file_name drv gdf = (Inr (), [Wrote_file file_name drv gdf])"

definition and_then :: "'a run \<Rightarrow> ('a \<Rightarrow> 'b run) \<Rightarrow> 'b run" where
  "and_then m f =
     (case m of
        (Inl e, out) \<Rightarrow> (Inl e, out)
      | (Inr a, out) \<Rightarrow> (case f a of (r, out') \<Rightarrow> (r, out @ out')))"

section \<open>The ring scan (lines 54 to 79)\<close>

text \<open>The seed of the running minimum (lines 54 to 57).\<close>

definition initial_min_h :: "string \<Rightarrow> real" where
  "initial_min_h z_unit_in = (if z_unit_in = ''m'' then 9000 else 30000)"

text \<open>
  The test of line 72: more than 3 points, and the set of the Z coordinates has exactly
  one element.
\<close>

definition horizontal_face :: "ring \<Rightarrow> bool" where
  "horizontal_face r \<longleftrightarrow> length r > 3 \<and> card (set (map c2 r)) = 1"

definition z_coordinate :: "ring \<Rightarrow> real" where
  "z_coordinate r = c2 (r ! 0)"

definition xy_coordinates :: "ring \<Rightarrow> (real \<times> real) list" where
  "xy_coordinates r = map (\<lambda>c. (c0 c, c1 c)) r"

text \<open>
  \<open>building_parts\<close> maps an (x, y) sequence to the list of Z values seen for it, in
  insertion order. Lines 76 to 79: append to the list of a known key, or start a new one.
\<close>

type_synonym building_parts = "((real \<times> real) list \<times> real list) list"

definition record_part :: "(real \<times> real) list \<Rightarrow> real \<Rightarrow> building_parts \<Rightarrow> building_parts" where
  "record_part xy z parts =
     (case map_of parts xy of
        Some zs \<Rightarrow> AList.update xy (zs @ [z]) parts
      | None \<Rightarrow> AList.update xy [z] parts)"

text \<open>One iteration of the loop of line 71, on the pair \<open>(min_h, building_parts)\<close>.\<close>

definition scan_step :: "multipatch_polygon \<Rightarrow> real \<times> building_parts \<Rightarrow> real \<times> building_parts" where
  "scan_step multipatch_polygon st =
     (let r = exterior multipatch_polygon in
      if horizontal_face r
      then (min (fst st) (z_coordinate r), record_part (xy_coordinates r) (z_coordinate r) (snd st))
      else st)"

definition scan_rings :: "string \<Rightarrow> multipatch_polygon list \<Rightarrow> real \<times> building_parts" where
  "scan_rings z_unit_in polys = fold scan_step polys (initial_min_h z_unit_in, [])"

section \<open>Float arithmetic\<close>

text \<open>
  The Z values are IEEE 754 doubles, and so is the literal \<open>0.3048\<close>. A real is a
  double when it is an integer of magnitude below \<open>2 ^ 53\<close> times a power of two with
  exponent from -1074 to 971.
\<close>

definition is_double :: "real \<Rightarrow> bool" where
  "is_double x \<longleftrightarrow>
     (\<exists>e \<in> {- 1074 .. 971 :: int}.
        of_int \<lfloor>x / 2 powi e\<rfloor> = x / 2 powi e \<and> \<bar>x / 2 powi e\<bar> < 2 ^ 53)"

text \<open>The double that the literal \<open>0.3048\<close> denotes.\<close>

definition double_0_3048 :: real where
  "double_0_3048 = 5490788665690109 / 2 ^ 54"

text \<open>
  Python's \<open>a - b\<close> and \<open>h * 0.3048\<close> on doubles. The result of a float operation is
  the exact result when that is a double. Otherwise it is the exact result rounded: to
  the nearest double, or to an infinity on overflow. This rounding is the parameter
  \<open>rnd\<close>; nothing is assumed about it.
\<close>

definition py_sub :: "(real \<Rightarrow> val) \<Rightarrow> real \<Rightarrow> real \<Rightarrow> val" where
  "py_sub rnd a b = (if is_double (a - b) then JNum (a - b) else rnd (a - b))"

definition py_mul_0_3048 :: "(real \<Rightarrow> val) \<Rightarrow> real \<Rightarrow> val" where
  "py_mul_0_3048 rnd h =
     (if is_double (h * double_0_3048) then JNum (h * double_0_3048)
      else rnd (h * double_0_3048))"

section \<open>Emitting the flat polygons (lines 82 to 113)\<close>

text \<open>
  Python's \<open>max\<close> of a list. The lists of \<open>building_parts\<close> are never empty
  (lemma \<open>scan_rings_nonempty\<close> below), so the \<open>ValueError\<close> of an empty argument does
  not arise.
\<close>

definition py_max :: "real list \<Rightarrow> real" where
  "py_max zs = fold max (tl zs) (hd zs)"

text \<open>Lines 88 to 95: copy the properties, then assign \<open>'height'\<close> and \<open>'geometry'\<close>.\<close>

definition new_feature :: "pydict \<Rightarrow> (real \<times> real) list \<Rightarrow> real list \<Rightarrow> pydict" where
  "new_feature props xy_coords z_coords =
     AList.update ''geometry'' (Geom (Polygon xy_coords))
       (AList.update ''height'' (JNum (py_max z_coords)) props)"

definition splitted_feature_list :: "pydict \<Rightarrow> building_parts \<Rightarrow> pydict list" where
  "splitted_feature_list props parts = map (\<lambda>(xy_coords, z_coords). new_feature props xy_coords z_coords) parts"

text \<open>
  \<open>f['height'] = g(f['height'])\<close> for a float operation \<open>g\<close>. Every dictionary this is
  applied to had a number assigned to \<open>'height'\<close> by \<open>new_feature\<close>. The subtraction of
  line 103 always finds that number. The multiplication of line 108 finds it or, after
  an overflow of the subtraction, an infinity, which the multiplication by the positive
  \<open>0.3048\<close> leaves as it is: that is the other case.
\<close>

definition map_height :: "(real \<Rightarrow> val) \<Rightarrow> pydict \<Rightarrow> pydict" where
  "map_height g f =
     (case map_of f ''height'' of
        Some (JNum h) \<Rightarrow> AList.update ''height'' (g h) f
      | _ \<Rightarrow> f)"

text \<open>Lines 100 to 103.\<close>

definition adjust_relative :: "(real \<Rightarrow> val) \<Rightarrow> bool \<Rightarrow> real \<Rightarrow> pydict list \<Rightarrow> pydict list" where
  "adjust_relative rnd relative_h min_h fs =
     (if relative_h then map (map_height (\<lambda>h. py_sub rnd h min_h)) fs else fs)"

text \<open>
  Lines 105 to 113. The \<open>print\<close> of line 113 is kept where the source has it, after the
  \<open>raise\<close>.
\<close>

definition convert_units :: "(real \<Rightarrow> val) \<Rightarrow> string \<Rightarrow> pydict list \<Rightarrow> pydict list run" where
  "convert_units rnd z_unit_in fs =
     (if z_unit_in = ''ft'' then ret (map (map_height (py_mul_0_3048 rnd)) fs)
      else if z_unit_in = ''m'' then ret fs
      else and_then (raise WrongUnits :: unit run) (\<lambda>_.
           and_then (print_line Wrong_units_text) (\<lambda>_. ret fs)))"

text \<open>The body of the loop over features (lines 49 to 113).\<close>

definition convert_feature :: "(real \<Rightarrow> val) \<Rightarrow> string \<Rightarrow> bool \<Rightarrow> feature \<Rightarrow> pydict list run" where
  "convert_feature rnd z_unit_in relative_h ftr =
     (let st = scan_rings z_unit_in (coordinates ftr);
          fs = splitted_feature_list (properties ftr) (snd st)
      in convert_units rnd z_unit_in (adjust_relative rnd relative_h (fst st) fs))"

text \<open>The loop of line 49, with \<open>feature_list\<close> as accumulator (line 116).\<close>

fun convert_features ::
  "(real \<Rightarrow> val) \<Rightarrow> string \<Rightarrow> bool \<Rightarrow> feature list \<Rightarrow> pydict list \<Rightarrow> pydict list run" where
  "convert_features rnd z_unit_in relative_h [] feature_list = ret feature_list"
| "convert_features rnd z_unit_in relative_h (ftr # rest) feature_list =
     and_then (convert_feature rnd z_unit_in relative_h ftr) (\<lambda>fs.
       convert_features rnd z_unit_in relative_h rest (feature_list @ fs))"

section \<open>Reprojection and output (lines 118 to 139)\<close>

text \<open>
  The frame of lines 119 to 122. Its columns are the keys of the rows, so a frame built
  from an empty \<open>feature_list\<close> has no geometry column; GeoPandas refuses it, at the
  construction with a CRS or at the reprojection of line 125, and the call ends there.
  A row of a non-empty \<open>feature_list\<close> always has its \<open>'geometry'\<close>.
\<close>

definition GeoDataFrame :: "pydict list \<Rightarrow> crs \<Rightarrow> pydict geodataframe run" where
  "GeoDataFrame feature_list c =
     (if feature_list = [] then raise NoGeometryColumn
      else ret \<lparr>features = feature_list, crs = c\<rparr>)"

text \<open>
  \<open>to_crs\<close> belongs to GeoPandas. It is modelled by what it is documented to do: the
  geometry of every row is transformed point by point from the frame's CRS to the
  target, and the frame's CRS becomes the target. The coordinate transformation itself
  is the parameter \<open>tr\<close>.
\<close>

definition reproject_row :: "((real \<times> real) \<Rightarrow> (real \<times> real)) \<Rightarrow> pydict \<Rightarrow> pydict" where
  "reproject_row t f =
     (case map_of f ''geometry'' of
        Some (Geom (Polygon ps)) \<Rightarrow> AList.update ''geometry'' (Geom (Polygon (map t ps))) f
      | _ \<Rightarrow> f)"

definition to_crs ::
  "(crs \<Rightarrow> crs \<Rightarrow> (real \<times> real) \<Rightarrow> (real \<times> real)) \<Rightarrow> crs \<Rightarrow> pydict geodataframe \<Rightarrow> pydict geodataframe" where
  "to_crs tr target gdf =
     \<lparr>features = map (reproject_row (tr (crs gdf) target)) (features gdf), crs = target\<rparr>"

text \<open>Lines 128 to 139. The function returns \<open>None\<close> after writing a file.\<close>

definition save_or_return ::
  "bool \<Rightarrow> string \<Rightarrow> string \<Rightarrow> string \<Rightarrow> pydict geodataframe \<Rightarrow> pydict geodataframe option run" where
  "save_or_return save path filename out_format new_gdf_gj =
     (if save then
        (if out_format = ''geojson'' then
           and_then (to_file (path @ filename @ ''.geojson'') GeoJSON new_gdf_gj) (\<lambda>_. ret None)
         else if out_format = ''shp'' then
           and_then (to_file (path @ filename @ ''.shp'') ESRI_Shapefile new_gdf_gj) (\<lambda>_. ret None)
         else
           and_then (raise WrongFormat :: unit run) (\<lambda>_.
           and_then (print_line Wrong_format_text) (\<lambda>_. ret None)))
      else ret (Some new_gdf_gj))"

text \<open>
  The function. Besides the arguments of the source it takes the two parts of the
  libraries that the model leaves open: the coordinate transformation \<open>tr\<close> and the
  rounding \<open>rnd\<close> of inexact float results.
\<close>

definition multipatch_convertor ::
  "(crs \<Rightarrow> crs \<Rightarrow> (real \<times> real) \<Rightarrow> (real \<times> real)) \<Rightarrow> (real \<Rightarrow> val) \<Rightarrow> feature geodataframe \<Rightarrow>
     string \<Rightarrow> bool \<Rightarrow> bool \<Rightarrow> string \<Rightarrow> string \<Rightarrow> string \<Rightarrow> pydict geodataframe option run" where
  "multipatch_convertor tr rnd geodataframe z_unit_in relative_h save path filename out_format =
     and_then (convert_features rnd z_unit_in relative_h (features geodataframe) []) (\<lambda>feature_list.
     and_then (GeoDataFrame feature_list (crs geodataframe)) (\<lambda>new_gdf_gj.
       save_or_return save path filename out_format (to_crs tr (EPSG 4326) new_gdf_gj)))"

section \<open>Example inputs\<close>

text \<open>
  The feature of the specification's first test: a top face at Z = 10, a bottom face
  with the same footprint at Z = 0, and a wall whose Z values are mixed.
\<close>

definition top_ring :: ring where
  "top_ring = [(0, 0, 10), (4, 0, 10), (4, 3, 10), (0, 0, 10)]"

definition bottom_ring :: ring where
  "bottom_ring = [(0, 0, 0), (4, 0, 0), (4, 3, 0), (0, 0, 0)]"

definition wall_ring :: ring where
  "wall_ring = [(0, 0, 0), (4, 0, 0), (4, 0, 10), (0, 0, 10), (0, 0, 0)]"

definition box_feature :: feature where
  "box_feature =
     \<lparr>properties = [(''name'', JStr ''box'')],
      coordinates = [(top_ring, []), (bottom_ring, []), (wall_ring, [])]\<rparr>"

text \<open>A feature with a single horizontal face at Z = 100.\<close>

definition slab_feature :: feature where
  "slab_feature =
     \<lparr>properties = [(''name'', JStr ''slab'')],
      coordinates = [([(0, 0, 100), (4, 0, 100), (4, 3, 100), (0, 0, 100)], [])]\<rparr>"

text \<open>
  A feature with two building parts: one between Z = 5 and Z = 10, one on a second
  footprint between Z = 10 and Z = 15.
\<close>

definition two_part_feature :: feature where
  "two_part_feature =
     \<lparr>properties = [(''name'', JStr ''duo'')],
      coordinates =
        [([(0, 0, 10), (4, 0, 10), (4, 3, 10), (0, 0, 10)], []),
         ([(0, 0, 5), (4, 0, 5), (4, 3, 5), (0, 0, 5)], []),
         ([(6, 0, 15), (9, 0, 15), (9, 3, 15), (6, 0, 15)], []),
         ([(6, 0, 10), (9, 0, 10), (9, 3, 10), (6, 0, 10)], [])]\<rparr>"

text \<open>A feature whose only horizontal face lies above the seed of the running minimum.\<close>

definition summit_feature :: feature where
  "summit_feature =
     \<lparr>properties = [(''name'', JStr ''summit'')],
      coordinates = [([(0, 0, 10000), (4, 0, 10000), (4, 3, 10000), (0, 0, 10000)], [])]\<rparr>"

text \<open>A feature that has a wall only: none of its rings is kept.\<close>

definition wall_feature :: feature where
  "wall_feature = \<lparr>properties = [(''name'', JStr ''wall'')], coordinates = [(wall_ring, [])]\<rparr>"

text \<open>
  Stand-ins for the library's coordinate transformation in the examples: one that
  leaves the coordinates, and one that moves every point.
\<close>

definition keep_coordinates :: "crs \<Rightarrow> crs \<Rightarrow> (real \<times> real) \<Rightarrow> (real \<times> real)" where
  "keep_coordinates src target xy = xy"

definition sample_projection :: "crs \<Rightarrow> crs \<Rightarrow> (real \<times> real) \<Rightarrow> (real \<times> real)" where
  "sample_projection src target xy = (fst xy / 2 - 74, snd xy / 4 + 40)"

text \<open>
  A stand-in for the rounding in the examples. No example has an inexact float result,
  so the rounding is not used in any of them.
\<close>

definition no_rounding :: "real \<Rightarrow> val" where
  "no_rounding x = JNum x"

lemmas model_defs =
  multipatch_convertor_def GeoDataFrame_def save_or_return_def to_crs_def reproject_row_def
  convert_feature_def convert_units_def adjust_relative_def map_height_def
  splitted_feature_list_def new_feature_def py_max_def scan_rings_def scan_step_def
  record_part_def xy_coordinates_def z_coordinate_def horizontal_face_def
  initial_min_h_def exterior_def c0_def c1_def c2_def
  ret_def raise_def print_line_def to_file_def and_then_def Let_def card_insert_if

lemmas example_defs =
  top_ring_def bottom_ring_def wall_ring_def box_feature_def slab_feature_def
  two_part_feature_def summit_feature_def wall_feature_def keep_coordinates_def
  sample_projection_def

section \<open>Sequencing laws\<close>

lemma and_then_Inr: "and_then (Inr a, []) f = f a"
  by (simp add: and_then_def split: prod.splits)

lemma and_then_Inl: "and_then (Inl e, out) f = (Inl e, out)"
  by (simp add: and_then_def)

lemma and_then_ret: "and_then (ret a) f = f a"
  by (simp add: ret_def and_then_Inr)

section \<open>The dictionary of building parts\<close>

lemma map_of_record_part:
  "map_of (record_part xy z parts) k =
     (if k = xy then Some (case map_of parts xy of None \<Rightarrow> [z] | Some zs \<Rightarrow> zs @ [z])
      else map_of parts k)"
  by (simp add: record_part_def update_conv' split: option.splits)

lemma distinct_record_part:
  "distinct (map fst parts) \<Longrightarrow> distinct (map fst (record_part xy z parts))"
  by (simp add: record_part_def distinct_update split: option.splits)

lemma keys_record_part:
  "fst ` set (record_part xy z parts) = insert xy (fst ` set parts)"
  by (simp add: record_part_def dom_update split: option.splits)

lemma fold_min_Min: "fold min zs (m::real) = Min (insert m (set zs))"
proof (induction zs arbitrary: m)
  case Nil
  then show ?case by simp
next
  case (Cons z zs)
  have "Min (insert (min z m) (set zs)) = Min (insert m (insert z (set zs)))"
    by (cases "set zs = {}") (simp_all add: min.commute min.assoc min.left_commute)
  then show ?case using Cons.IH [of "min z m"] by simp
qed

lemma py_max_Max:
  assumes "zs \<noteq> []"
  shows "py_max zs = Max (set zs)"
proof (cases zs)
  case Nil
  with assms show ?thesis by simp
next
  case (Cons a list)
  then show ?thesis using Max.set_eq_fold [of a list] by (simp add: py_max_def)
qed

lemma fold_scan_step_fst:
  "fst (fold scan_step polys st) =
     fold min (map z_coordinate (filter horizontal_face (map exterior polys))) (fst st)"
  by (induction polys arbitrary: st) (simp_all add: scan_step_def Let_def min.commute)

lemma fold_scan_step_distinct:
  "distinct (map fst (snd st)) \<Longrightarrow> distinct (map fst (snd (fold scan_step polys st)))"
  by (induction polys arbitrary: st) (simp_all add: scan_step_def Let_def distinct_record_part)

lemma fold_scan_step_lookup:
  "map_of (snd (fold scan_step polys st)) xy =
     (let new = map z_coordinate (filter (\<lambda>r. xy_coordinates r = xy)
                  (filter horizontal_face (map exterior polys)))
      in case map_of (snd st) xy of
           None \<Rightarrow> if new = [] then None else Some new
         | Some old \<Rightarrow> Some (old @ new))"
proof (induction polys arbitrary: st)
  case Nil
  then show ?case by (simp split: option.splits)
next
  case (Cons p polys)
  show ?case
  proof (cases "horizontal_face (exterior p)")
    case False
    then show ?thesis using Cons.IH [of st] by (simp add: scan_step_def Let_def)
  next
    case True
    then show ?thesis
      using Cons.IH [of "(min (fst st) (z_coordinate (exterior p)),
          record_part (xy_coordinates (exterior p)) (z_coordinate (exterior p)) (snd st))"]
      by (auto simp: scan_step_def Let_def map_of_record_part split: option.splits)
  qed
qed

lemma fold_scan_step_keys:
  "fst ` set (snd (fold scan_step polys st)) =
     fst ` set (snd st) \<union> xy_coordinates ` {r \<in> set (map exterior polys). horizontal_face r}"
  by (induction polys arbitrary: st) (auto simp: scan_step_def Let_def keys_record_part)

lemma fold_scan_step_filter:
  "fold scan_step (filter (\<lambda>p. horizontal_face (exterior p)) polys) st = fold scan_step polys st"
  by (induction polys arbitrary: st) (simp_all add: scan_step_def Let_def)

lemma horizontal_face_iff:
  "horizontal_face r \<longleftrightarrow> 3 < length r \<and> (\<exists>z. c2 ` set r = {z})"
  by (auto simp: horizontal_face_def card_1_singleton_iff)

lemma record_part_changes: "record_part xy z parts \<noteq> parts"
proof
  assume "record_part xy z parts = parts"
  then have "map_of (record_part xy z parts) xy = map_of parts xy" by simp
  then show False by (simp add: map_of_record_part split: option.splits)
qed

lemma scan_step_changes: "scan_step p st \<noteq> st \<longleftrightarrow> horizontal_face (exterior p)"
proof (cases "horizontal_face (exterior p)")
  case True
  have "snd (scan_step p st) \<noteq> snd st"
    using True by (simp add: scan_step_def Let_def record_part_changes)
  then show ?thesis using True by auto
next
  case False
  then show ?thesis by (simp add: scan_step_def Let_def)
qed

lemma scan_rings_filter:
  "scan_rings u (filter (\<lambda>p. horizontal_face (exterior p)) polys) = scan_rings u polys"
  by (simp add: scan_rings_def fold_scan_step_filter)

lemma scan_rings_lookup:
  "map_of (snd (scan_rings u polys)) xy =
     (let zs = map z_coordinate (filter (\<lambda>r. xy_coordinates r = xy)
                  (filter horizontal_face (map exterior polys)))
      in if zs = [] then None else Some zs)"
  by (simp add: scan_rings_def fold_scan_step_lookup)

lemma scan_rings_distinct: "distinct (map fst (snd (scan_rings u polys)))"
  by (simp add: scan_rings_def fold_scan_step_distinct)

lemma scan_rings_keys:
  "fst ` set (snd (scan_rings u polys)) =
     xy_coordinates ` {r \<in> set (map exterior polys). horizontal_face r}"
  by (simp add: scan_rings_def fold_scan_step_keys)

lemma scan_rings_entry:
  assumes "(xy, zs) \<in> set (snd (scan_rings u polys))"
  shows "zs = map z_coordinate (filter (\<lambda>r. xy_coordinates r = xy)
                  (filter horizontal_face (map exterior polys))) \<and> zs \<noteq> []"
proof -
  have "map_of (snd (scan_rings u polys)) xy = Some zs"
    using assms scan_rings_distinct [of u polys] by simp
  then show ?thesis by (auto simp: scan_rings_lookup Let_def split: if_splits)
qed

lemma scan_rings_nonempty: "(xy, zs) \<in> set (snd (scan_rings u polys)) \<Longrightarrow> zs \<noteq> []"
  using scan_rings_entry by blast

section \<open>Float arithmetic: exact results\<close>

lemma is_double_small_int: "\<bar>n\<bar> < 2 ^ 53 \<Longrightarrow> is_double (of_int n)"
  unfolding is_double_def by (rule bexI [of _ 0]) simp_all

lemma py_sub_exact: "is_double (a - b) \<Longrightarrow> py_sub rnd a b = JNum (a - b)"
  by (simp add: py_sub_def)

lemma small_doubles: "is_double 5" "is_double 10" "is_double 1000"
  using is_double_small_int [of 5] is_double_small_int [of 10] is_double_small_int [of 1000]
  by simp_all

section \<open>Control flow of the conversion\<close>

lemma convert_units_cases:
  "convert_units rnd u fs =
     (if u = ''ft'' then (Inr (map (map_height (py_mul_0_3048 rnd)) fs), [])
      else if u = ''m'' then (Inr fs, [])
      else (Inl WrongUnits, []))"
  by (simp add: convert_units_def ret_def raise_def and_then_Inl)

lemma convert_feature_result:
  "convert_feature rnd u r ftr =
     (if u = ''ft'' then
        (Inr (map (map_height (py_mul_0_3048 rnd))
               (adjust_relative rnd r (fst (scan_rings u (coordinates ftr)))
                  (splitted_feature_list (properties ftr) (snd (scan_rings u (coordinates ftr)))))), [])
      else if u = ''m'' then
        (Inr (adjust_relative rnd r (fst (scan_rings u (coordinates ftr)))
                  (splitted_feature_list (properties ftr) (snd (scan_rings u (coordinates ftr))))), [])
      else (Inl WrongUnits, []))"
  by (simp add: convert_feature_def Let_def convert_units_cases)

lemma convert_feature_cases:
  "(\<exists>fs. convert_feature rnd u r ftr = (Inr fs, []) \<and> (u = ''m'' \<or> u = ''ft'')) \<or>
   (convert_feature rnd u r ftr = (Inl WrongUnits, []) \<and> u \<noteq> ''m'' \<and> u \<noteq> ''ft'')"
  by (simp add: convert_feature_result)

lemma convert_features_cases:
  "(\<exists>fl. convert_features rnd u r fs acc = (Inr fl, []) \<and> (u = ''m'' \<or> u = ''ft'' \<or> fs = [])) \<or>
   (convert_features rnd u r fs acc = (Inl WrongUnits, []) \<and> u \<noteq> ''m'' \<and> u \<noteq> ''ft'' \<and> fs \<noteq> [])"
proof (induction fs arbitrary: acc)
  case Nil
  then show ?case by (simp add: ret_def)
next
  case (Cons ftr fs)
  consider (ok) out where "convert_feature rnd u r ftr = (Inr out, [])" "u = ''m'' \<or> u = ''ft''"
    | (bad) "convert_feature rnd u r ftr = (Inl WrongUnits, [])" "u \<noteq> ''m''" "u \<noteq> ''ft''"
    using convert_feature_cases [of rnd u r ftr] by blast
  then show ?case
  proof cases
    case ok
    then show ?thesis using Cons.IH [of "acc @ out"] by (auto simp: and_then_Inr)
  next
    case bad
    then show ?thesis by (simp add: and_then_Inl)
  qed
qed

lemma convert_features_cong:
  "(\<And>ftr. convert_feature rnd u r (h ftr) = convert_feature rnd u r ftr) \<Longrightarrow>
   convert_features rnd u r (map h fs) acc = convert_features rnd u r fs acc"
  by (induction fs arbitrary: acc) simp_all

lemma save_or_return_cases:
  "save_or_return save path filename out_format gdf =
     (if \<not> save then (Inr (Some gdf), [])
      else if out_format = ''geojson''
        then (Inr None, [Wrote_file (path @ filename @ ''.geojson'') GeoJSON gdf])
      else if out_format = ''shp''
        then (Inr None, [Wrote_file (path @ filename @ ''.shp'') ESRI_Shapefile gdf])
      else (Inl WrongFormat, []))"
  by (simp add: save_or_return_def ret_def raise_def to_file_def and_then_def)

section \<open>Fields of the emitted features\<close>

lemma map_of_new_feature:
  "map_of (new_feature props xy zs) k =
     (if k = ''geometry'' then Some (Geom (Polygon xy))
      else if k = ''height'' then Some (JNum (py_max zs))
      else map_of props k)"
  by (simp add: new_feature_def update_conv')

lemma map_of_map_height_other:
  "k \<noteq> ''height'' \<Longrightarrow> map_of (map_height g f) k = map_of f k"
  by (simp add: map_height_def update_conv' split: option.splits val.splits)

lemma map_of_map_height:
  "map_of f ''height'' = Some (JNum h) \<Longrightarrow> map_of (map_height g f) ''height'' = Some (g h)"
  by (simp add: map_height_def update_conv')

lemma map_of_reproject_row:
  "k \<noteq> ''geometry'' \<Longrightarrow> map_of (reproject_row t f) k = map_of f k"
  by (simp add: reproject_row_def update_conv' split: option.splits val.splits polygon.splits)

lemma geometry_reproject_row:
  "map_of f ''geometry'' = Some (Geom (Polygon ps)) \<Longrightarrow>
   map_of (reproject_row t f) ''geometry'' = Some (Geom (Polygon (map t ps)))"
  by (simp add: reproject_row_def update_conv')

lemma heights_splitted:
  "map (\<lambda>f. map_of f ''height'') (splitted_feature_list props parts) =
   map (\<lambda>(xy, zs). Some (JNum (py_max zs))) parts"
  by (simp add: splitted_feature_list_def map_of_new_feature split_def)

lemma geometries_splitted:
  "map (\<lambda>f. map_of f ''geometry'') (splitted_feature_list props parts) =
   map (\<lambda>(xy, zs). Some (Geom (Polygon xy))) parts"
  by (simp add: splitted_feature_list_def map_of_new_feature split_def)

lemma heights_map_height:
  "map (\<lambda>f. map_of f ''height'') fs = map (\<lambda>h. Some (JNum h)) hs \<Longrightarrow>
   map (\<lambda>f. map_of f ''height'') (map (map_height g) fs) = map (\<lambda>h. Some (g h)) hs"
proof (induction fs arbitrary: hs)
  case Nil
  then show ?case by simp
next
  case (Cons f fs)
  then obtain h hs' where hs: "hs = h # hs'" by (cases hs) auto
  with Cons.prems have "map_of f ''height'' = Some (JNum h)"
    and "map (\<lambda>f. map_of f ''height'') fs = map (\<lambda>h. Some (JNum h)) hs'" by simp_all
  then show ?case using Cons.IH [of hs'] hs by (simp add: map_of_map_height)
qed

lemma heights_adjust_relative:
  "map (\<lambda>f. map_of f ''height'') fs = map (\<lambda>h. Some (JNum h)) hs \<Longrightarrow>
   map (\<lambda>f. map_of f ''height'') (adjust_relative rnd r m fs) =
   map (\<lambda>h. Some (if r then py_sub rnd h m else JNum h)) hs"
  using heights_map_height [of fs hs "\<lambda>h. py_sub rnd h m"]
  by (simp add: adjust_relative_def)

lemma geometries_adjust_relative:
  "map (\<lambda>f. map_of f ''geometry'') (adjust_relative rnd r m fs) = map (\<lambda>f. map_of f ''geometry'') fs"
  by (simp add: adjust_relative_def comp_def map_of_map_height_other)

lemma py_max_parts:
  "map (\<lambda>(xy, zs). py_max zs) (snd (scan_rings u polys)) =
   map (\<lambda>(xy, zs). Max (set zs)) (snd (scan_rings u polys))"
  by (rule map_cong) (auto simp: py_max_Max dest: scan_rings_nonempty)

lemma heights_before_conversion:
  "map (\<lambda>f. map_of f ''height'')
     (adjust_relative rnd r (fst (scan_rings u polys))
        (splitted_feature_list props (snd (scan_rings u polys)))) =
   map (\<lambda>(xy, zs). Some (if r then py_sub rnd (Max (set zs)) (fst (scan_rings u polys))
                          else JNum (Max (set zs))))
     (snd (scan_rings u polys))"
proof -
  have "map (\<lambda>f. map_of f ''height'') (splitted_feature_list props (snd (scan_rings u polys))) =
        map (\<lambda>h. Some (JNum h)) (map (\<lambda>(xy, zs). Max (set zs)) (snd (scan_rings u polys)))"
    using py_max_parts [of u polys] by (simp add: heights_splitted split_def comp_def)
  from heights_adjust_relative [OF this, of rnd r "fst (scan_rings u polys)"]
  show ?thesis by (simp add: split_def comp_def)
qed

lemma convert_feature_geometries:
  assumes "convert_feature rnd u r ftr = (Inr fs, [])"
  shows "map (\<lambda>f. map_of f ''geometry'') fs =
         map (\<lambda>(xy, zs). Some (Geom (Polygon xy))) (snd (scan_rings u (coordinates ftr)))"
  using assms
  by (auto simp: convert_feature_result geometries_adjust_relative geometries_splitted
      comp_def map_of_map_height_other split: if_splits)

lemma convert_features_geometries:
  "convert_features rnd u r fs acc = (Inr fl, []) \<Longrightarrow>
   map (\<lambda>f. map_of f ''geometry'') fl =
     map (\<lambda>f. map_of f ''geometry'') acc @
     concat (map (\<lambda>ftr. map (\<lambda>(xy, zs). Some (Geom (Polygon xy)))
                          (snd (scan_rings u (coordinates ftr)))) fs)"
proof (induction fs arbitrary: acc)
  case Nil
  then show ?case by (simp add: ret_def)
next
  case (Cons ftr fs)
  consider (ok) out where "convert_feature rnd u r ftr = (Inr out, [])"
    | (bad) "convert_feature rnd u r ftr = (Inl WrongUnits, [])"
    using convert_feature_cases [of rnd u r ftr] by blast
  then show ?case
  proof cases
    case ok
    with Cons.prems have "convert_features rnd u r fs (acc @ out) = (Inr fl, [])"
      by (simp add: and_then_Inr)
    from Cons.IH [OF this] convert_feature_geometries [OF ok] show ?thesis by simp
  next
    case bad
    with Cons.prems show ?thesis by (simp add: and_then_Inl)
  qed
qed

lemma no_kept_ring_no_part:
  "snd (scan_rings u polys) = [] \<longleftrightarrow> (\<forall>p \<in> set polys. \<not> horizontal_face (exterior p))"
proof -
  have "snd (scan_rings u polys) = [] \<longleftrightarrow> fst ` set (snd (scan_rings u polys)) = {}"
    by simp
  then show ?thesis unfolding scan_rings_keys by auto
qed

lemma scan_rings_running_min:
  "fst (scan_rings u polys) =
     Min (insert (initial_min_h u) (set (map z_coordinate (filter horizontal_face (map exterior polys)))))"
  by (simp add: scan_rings_def fold_scan_step_fst fold_min_Min del: set_map set_filter)

lemma Min_insert_seed:
  fixes m :: real
  assumes "z \<in> set zs" "z \<le> m"
  shows "Min (insert m (set zs)) = Min (set zs)"
proof -
  have ne: "set zs \<noteq> {}" using assms(1) by auto
  have "Min (set zs) \<le> z" using assms(1) by (intro Min_le) auto
  with assms(2) have "Min (set zs) \<le> m" by simp
  moreover have "Min (insert m (set zs)) = min m (Min (set zs))"
    using ne by (intro Min_insert) auto
  ultimately show ?thesis by (simp add: min_def)
qed

lemma running_min_is_minimum:
  assumes "z \<in> set (map z_coordinate (filter horizontal_face (map exterior polys)))"
    and "z \<le> initial_min_h u"
  shows "fst (scan_rings u polys) =
           Min (set (map z_coordinate (filter horizontal_face (map exterior polys))))"
  unfolding scan_rings_running_min using assms by (rule Min_insert_seed)

lemma splitted_feature_list_Max:
  "splitted_feature_list props (snd (scan_rings u polys)) =
     map (\<lambda>(xy, zs). AList.update ''geometry'' (Geom (Polygon xy))
                        (AList.update ''height'' (JNum (Max (set zs))) props))
       (snd (scan_rings u polys))"
  unfolding splitted_feature_list_def
  by (rule map_cong) (auto simp: new_feature_def py_max_Max dest: scan_rings_nonempty)

lemma scan_rings_keys_list:
  "set (map fst (snd (scan_rings u polys))) =
     set (map xy_coordinates (filter horizontal_face (map exterior polys)))"
  using scan_rings_keys [of u polys] by auto

lemma convert_feature_filter:
  "convert_feature rnd u r (ftr\<lparr>coordinates := filter (\<lambda>p. horizontal_face (exterior p)) (coordinates ftr)\<rparr>) =
   convert_feature rnd u r ftr"
  by (simp add: convert_feature_def scan_rings_filter)

lemma multipatch_convertor_cong:
  assumes "\<And>ftr. convert_feature rnd u r (h ftr) = convert_feature rnd u r ftr"
  shows "multipatch_convertor tr rnd (g\<lparr>features := map h (features g)\<rparr>) u r s p f fmt =
         multipatch_convertor tr rnd g u r s p f fmt"
  using convert_features_cong [of rnd u r h "features g" "[]", OF assms]
  by (simp add: multipatch_convertor_def)

section \<open>The ways a call ends\<close>

lemma GeoDataFrame_cases:
  "GeoDataFrame fl c =
     (if fl = [] then (Inl NoGeometryColumn, []) else (Inr \<lparr>features = fl, crs = c\<rparr>, []))"
  by (simp add: GeoDataFrame_def raise_def ret_def)

lemma multipatch_convertor_cases:
  obtains (completed) fl where
      "convert_features rnd u r (features g) [] = (Inr fl, [])"
      "fl \<noteq> []"
      "multipatch_convertor tr rnd g u r s p f fmt =
        save_or_return s p f fmt (to_crs tr (EPSG 4326) \<lparr>features = fl, crs = crs g\<rparr>)"
  | (no_geometry)
      "convert_features rnd u r (features g) [] = (Inr [], [])"
      "multipatch_convertor tr rnd g u r s p f fmt = (Inl NoGeometryColumn, [])"
  | (wrong_units)
      "multipatch_convertor tr rnd g u r s p f fmt = (Inl WrongUnits, [])"
      "u \<noteq> ''m''" "u \<noteq> ''ft''" "features g \<noteq> []"
proof -
  consider (ok) fl where "convert_features rnd u r (features g) [] = (Inr fl, [])"
    | (bad) "convert_features rnd u r (features g) [] = (Inl WrongUnits, [])"
        "u \<noteq> ''m''" "u \<noteq> ''ft''" "features g \<noteq> []"
    using convert_features_cases [of rnd u r "features g" "[]"] by blast
  then show thesis
  proof cases
    case ok
    show ?thesis
    proof (cases "fl = []")
      case True
      with ok show ?thesis
        by (intro no_geometry)
           (simp_all add: multipatch_convertor_def and_then_Inr and_then_Inl GeoDataFrame_cases)
    next
      case False
      with ok show ?thesis
        by (intro completed [of fl])
           (simp_all add: multipatch_convertor_def and_then_Inr GeoDataFrame_cases)
    qed
  next
    case bad
    then show ?thesis
      by (intro wrong_units) (simp_all add: multipatch_convertor_def and_then_Inl)
  qed
qed

text \<open>
  The call gets as far as line 128 exactly when the unit is valid and some ring of the
  collection is kept.
\<close>

lemma reaches_output:
  assumes unit: "u = ''m'' \<or> u = ''ft''"
    and kept: "\<exists>ftr \<in> set (features g). \<exists>p \<in> set (coordinates ftr). horizontal_face (exterior p)"
  obtains fl where
      "convert_features rnd u r (features g) [] = (Inr fl, [])"
      "fl \<noteq> []"
      "multipatch_convertor tr rnd g u r s p f fmt =
        save_or_return s p f fmt (to_crs tr (EPSG 4326) \<lparr>features = fl, crs = crs g\<rparr>)"
proof (cases rule: multipatch_convertor_cases [of rnd u r g tr s p f fmt])
  case (completed fl)
  then show ?thesis by (rule that)
next
  case no_geometry
  from convert_features_geometries [OF no_geometry(1)]
  have "\<forall>ftr \<in> set (features g). snd (scan_rings u (coordinates ftr)) = []" by simp
  with kept show ?thesis by (auto simp: no_kept_ring_no_part)
next
  case wrong_units
  with unit show ?thesis by simp
qed

section \<open>Which rings are kept\<close>

text \<open>
  C1: a ring is kept for grouping if and only if it has more than 3 points and exactly
  one distinct Z value. An iteration of the ring scan changes the state exactly for such
  a ring; the list that \<open>building_parts\<close> holds for an (x, y) sequence is the list of
  the Z values of such rings with that sequence, one entry per ring; and the whole
  conversion gives the same result when every other ring (fewer than 4 points, or Z
  values that are not all equal) is removed from every feature beforehand, so those
  rings contribute to no output feature.
\<close>

theorem horizontal_faces_only:
  "(scan_step p st \<noteq> st \<longleftrightarrow> 3 < length (exterior p) \<and> (\<exists>z. c2 ` set (exterior p) = {z})) \<and>
   map_of (snd (scan_rings u polys)) xy =
     (let zs = map z_coordinate
                 (filter (\<lambda>rg. xy_coordinates rg = xy)
                   (filter (\<lambda>rg. 3 < length rg \<and> (\<exists>z. c2 ` set rg = {z})) (map exterior polys)))
      in if zs = [] then None else Some zs) \<and>
   multipatch_convertor tr rnd g u r s pa fn fmt =
     multipatch_convertor tr rnd
       (g\<lparr>features :=
            map (\<lambda>ftr. ftr\<lparr>coordinates :=
                   filter (\<lambda>p. 3 < length (exterior p) \<and> (\<exists>z. c2 ` set (exterior p) = {z}))
                     (coordinates ftr)\<rparr>)
              (features g)\<rparr>) u r s pa fn fmt"
proof -
  have hf: "(\<lambda>rg. 3 < length rg \<and> (\<exists>z. c2 ` set rg = {z})) = horizontal_face"
    by (simp add: fun_eq_iff horizontal_face_iff)
  have hfp: "(\<lambda>p. 3 < length (exterior p) \<and> (\<exists>z. c2 ` set (exterior p) = {z})) =
             (\<lambda>p. horizontal_face (exterior p))"
    by (simp add: fun_eq_iff horizontal_face_iff)
  have 1: "scan_step p st \<noteq> st \<longleftrightarrow> 3 < length (exterior p) \<and> (\<exists>z. c2 ` set (exterior p) = {z})"
    by (simp only: scan_step_changes horizontal_face_iff)
  have 2: "map_of (snd (scan_rings u polys)) xy =
     (let zs = map z_coordinate
                 (filter (\<lambda>rg. xy_coordinates rg = xy)
                   (filter (\<lambda>rg. 3 < length rg \<and> (\<exists>z. c2 ` set rg = {z})) (map exterior polys)))
      in if zs = [] then None else Some zs)"
    unfolding hf by (rule scan_rings_lookup)
  have 3: "multipatch_convertor tr rnd g u r s pa fn fmt =
     multipatch_convertor tr rnd
       (g\<lparr>features :=
            map (\<lambda>ftr. ftr\<lparr>coordinates :=
                   filter (\<lambda>p. 3 < length (exterior p) \<and> (\<exists>z. c2 ` set (exterior p) = {z}))
                     (coordinates ftr)\<rparr>)
              (features g)\<rparr>) u r s pa fn fmt"
    unfolding hfp
    by (rule multipatch_convertor_cong [symmetric]) (rule convert_feature_filter)
  from 1 2 3 show ?thesis by (intro conjI)
qed

theorem horizontal_faces_only_witness:
  "scan_step (wall_ring, []) (9000, []) = (9000, []) \<and>
   scan_step ([(0, 0, 7), (4, 0, 7), (0, 0, 7)], []) (9000, []) = (9000, []) \<and>
   scan_step (top_ring, []) (9000, []) \<noteq> (9000, []) \<and>
   multipatch_convertor keep_coordinates no_rounding \<lparr>features = [box_feature], crs = EPSG 2263\<rparr>
       ''m'' False False ''./'' ''output'' ''geojson'' =
   multipatch_convertor keep_coordinates no_rounding
       \<lparr>features = [\<lparr>properties = [(''name'', JStr ''box'')],
                     coordinates = [(top_ring, []), (bottom_ring, [])]\<rparr>], crs = EPSG 2263\<rparr>
       ''m'' False False ''./'' ''output'' ''geojson''"
proof -
  note c1 = horizontal_faces_only [of "(wall_ring, [])" "(9000, [])" "''m''" "[]" "[]" keep_coordinates no_rounding
      "\<lparr>features = [box_feature], crs = EPSG 2263\<rparr>" False False "''./''" "''output''" "''geojson''"]
  have "\<not> (\<exists>z. c2 ` set (exterior (wall_ring, [])) = {z})"
    by (auto simp: wall_ring_def exterior_def c2_def)
  with c1 have a: "scan_step (wall_ring, []) (9000, []) = (9000, [])" by blast
  have b: "scan_step ([(0, 0, 7), (4, 0, 7), (0, 0, 7)], []) (9000, []) = (9000, [])"
    by (simp add: model_defs)
  have c: "scan_step (top_ring, []) (9000, []) \<noteq> (9000, [])"
    by (simp add: model_defs example_defs)
  have d: "multipatch_convertor keep_coordinates no_rounding \<lparr>features = [box_feature], crs = EPSG 2263\<rparr>
       ''m'' False False ''./'' ''output'' ''geojson'' =
   multipatch_convertor keep_coordinates no_rounding
       \<lparr>features = [\<lparr>properties = [(''name'', JStr ''box'')],
                     coordinates = [(top_ring, []), (bottom_ring, [])]\<rparr>], crs = EPSG 2263\<rparr>
       ''m'' False False ''./'' ''output'' ''geojson''"
    by (simp add: model_defs example_defs)
  from a b c d show ?thesis by (intro conjI)
qed

section \<open>One flat polygon per footprint\<close>

text \<open>
  C2: the kept rings are grouped by their (x, y) sequence: the keys of
  \<open>building_parts\<close> are distinct, they are the (x, y) sequences of the kept rings, and
  the list under a key holds the Z values of the kept rings with that sequence. For each
  group exactly one feature is emitted: the copy of the source properties with
  \<open>'height'\<close> set to the maximum Z of the group and \<open>'geometry'\<close> set to the flat
  polygon of the (x, y) sequence; every other key keeps the value of the source
  property. With meters and without relative heights this list is the result for the
  feature. The witness is the example of the specification: top ring at Z = 10, bottom
  ring at Z = 0 on the same footprint, and a wall; one polygon with height 10 comes out.
\<close>

theorem one_feature_per_footprint:
  "distinct (map fst (snd (scan_rings u (coordinates ftr)))) \<and>
   set (map fst (snd (scan_rings u (coordinates ftr)))) =
     set (map xy_coordinates (filter horizontal_face (map exterior (coordinates ftr)))) \<and>
   (\<forall>(xy, zs) \<in> set (snd (scan_rings u (coordinates ftr))).
      zs = map z_coordinate (filter (\<lambda>rg. xy_coordinates rg = xy)
             (filter horizontal_face (map exterior (coordinates ftr))))) \<and>
   splitted_feature_list (properties ftr) (snd (scan_rings u (coordinates ftr))) =
     map (\<lambda>(xy, zs). AList.update ''geometry'' (Geom (Polygon xy))
                        (AList.update ''height'' (JNum (Max (set zs))) (properties ftr)))
       (snd (scan_rings u (coordinates ftr))) \<and>
   (\<forall>f \<in> set (splitted_feature_list (properties ftr) (snd (scan_rings u (coordinates ftr)))).
      \<forall>k. k \<noteq> ''height'' \<and> k \<noteq> ''geometry'' \<longrightarrow> map_of f k = map_of (properties ftr) k) \<and>
   convert_feature rnd ''m'' False ftr =
     (Inr (splitted_feature_list (properties ftr) (snd (scan_rings ''m'' (coordinates ftr)))), [])"
proof (intro conjI)
  show "distinct (map fst (snd (scan_rings u (coordinates ftr))))"
    by (rule scan_rings_distinct)
  show "set (map fst (snd (scan_rings u (coordinates ftr)))) =
     set (map xy_coordinates (filter horizontal_face (map exterior (coordinates ftr))))"
    by (rule scan_rings_keys_list)
  show "\<forall>(xy, zs) \<in> set (snd (scan_rings u (coordinates ftr))).
      zs = map z_coordinate (filter (\<lambda>rg. xy_coordinates rg = xy)
             (filter horizontal_face (map exterior (coordinates ftr))))"
    using scan_rings_entry [of _ _ u "coordinates ftr"] by blast
  show "splitted_feature_list (properties ftr) (snd (scan_rings u (coordinates ftr))) =
     map (\<lambda>(xy, zs). AList.update ''geometry'' (Geom (Polygon xy))
                        (AList.update ''height'' (JNum (Max (set zs))) (properties ftr)))
       (snd (scan_rings u (coordinates ftr)))"
    by (rule splitted_feature_list_Max)
  show "\<forall>f \<in> set (splitted_feature_list (properties ftr) (snd (scan_rings u (coordinates ftr)))).
      \<forall>k. k \<noteq> ''height'' \<and> k \<noteq> ''geometry'' \<longrightarrow> map_of f k = map_of (properties ftr) k"
    by (auto simp: splitted_feature_list_def map_of_new_feature)
  show "convert_feature rnd ''m'' False ftr =
     (Inr (splitted_feature_list (properties ftr) (snd (scan_rings ''m'' (coordinates ftr)))), [])"
    by (simp add: convert_feature_result adjust_relative_def)
qed

theorem one_feature_per_footprint_witness:
  "snd (scan_rings ''m'' (coordinates box_feature)) = [([(0, 0), (4, 0), (4, 3), (0, 0)], [10, 0])] \<and>
   convert_feature no_rounding ''m'' False box_feature =
     (Inr [[(''name'', JStr ''box''), (''height'', JNum 10),
            (''geometry'', Geom (Polygon [(0, 0), (4, 0), (4, 3), (0, 0)]))]], [])"
proof -
  have parts: "snd (scan_rings ''m'' (coordinates box_feature)) =
      [([(0, 0), (4, 0), (4, 3), (0, 0)], [10, 0])]"
    by (simp add: model_defs example_defs)
  from one_feature_per_footprint [of "''m''" box_feature no_rounding]
  have "splitted_feature_list (properties box_feature) (snd (scan_rings ''m'' (coordinates box_feature))) =
     map (\<lambda>(xy, zs). AList.update ''geometry'' (Geom (Polygon xy))
                        (AList.update ''height'' (JNum (Max (set zs))) (properties box_feature)))
       (snd (scan_rings ''m'' (coordinates box_feature)))"
    and "convert_feature no_rounding ''m'' False box_feature =
     (Inr (splitted_feature_list (properties box_feature) (snd (scan_rings ''m'' (coordinates box_feature)))), [])"
    by blast+
  then have "convert_feature no_rounding ''m'' False box_feature =
     (Inr (map (\<lambda>(xy, zs). AList.update ''geometry'' (Geom (Polygon xy))
                        (AList.update ''height'' (JNum (Max (set zs))) (properties box_feature)))
       [([(0, 0), (4, 0), (4, 3), (0, 0)], [10, 0])]), [])"
    by (simp only: parts)
  then have "convert_feature no_rounding ''m'' False box_feature =
     (Inr [[(''name'', JStr ''box''), (''height'', JNum 10),
            (''geometry'', Geom (Polygon [(0, 0), (4, 0), (4, 3), (0, 0)]))]], [])"
    by (simp add: box_feature_def)
  with parts show ?thesis by (intro conjI)
qed

section \<open>The running minimum and relative heights\<close>

text \<open>
  C5: the docstring promises that with \<open>relative_h\<close> every height has the minimum height
  of the feature subtracted. The running minimum starts at the seed (9000 for \<open>'m'\<close>),
  so for a feature whose only kept ring lies at Z = 10000 it stays at 9000, although the
  minimum Z of the feature is 10000: the emitted relative height is 1000 where the
  minimum would give 0. The difference 10000 - 9000 is exact in doubles, whatever the
  rounding.
\<close>

theorem running_minimum_stuck_at_seed:
  "initial_min_h ''m'' = 9000 \<and>
   fst (scan_rings ''m'' (coordinates summit_feature)) = 9000 \<and>
   Min (set (map z_coordinate (filter horizontal_face (map exterior (coordinates summit_feature))))) = 10000 \<and>
   convert_feature rnd ''m'' True summit_feature =
     (Inr [[(''name'', JStr ''summit''), (''height'', JNum 1000),
            (''geometry'', Geom (Polygon [(0, 0), (4, 0), (4, 3), (0, 0)]))]], [])"
  using small_doubles
  by (simp add: model_defs example_defs py_sub_def)

text \<open>
  C6: for a feature, in meters, whose building parts have the maximum Z values 10 and 15
  and whose kept rings have the minimum Z 5, the call with \<open>relative_h=True\<close> emits the
  two features with the heights 5 and 10: both for the feature alone and in the frame
  that the call on a collection of this one feature returns.
\<close>

theorem relative_height_example:
  assumes parts: "map (\<lambda>(xy, zs). Max (set zs)) (snd (scan_rings ''m'' (coordinates ftr))) = [10, 15]"
    and lowest: "Min (set (map z_coordinate (filter horizontal_face (map exterior (coordinates ftr))))) = 5"
    and single: "features g = [ftr]"
  shows "(\<exists>fs. convert_feature rnd ''m'' True ftr = (Inr fs, []) \<and>
            map (\<lambda>f. map_of f ''height'') fs = [Some (JNum 5), Some (JNum 10)]) \<and>
         (\<exists>gdf. multipatch_convertor tr rnd g ''m'' True False p f fmt = (Inr (Some gdf), []) \<and>
            map (\<lambda>f. map_of f ''height'') (features gdf) = [Some (JNum 5), Some (JNum 10)])"
proof -
  let ?parts = "snd (scan_rings ''m'' (coordinates ftr))"
  define zs where "zs = map z_coordinate (filter horizontal_face (map exterior (coordinates ftr)))"
  from parts have "?parts \<noteq> []" by auto
  then have "fst ` set ?parts \<noteq> {}" by simp
  then have "zs \<noteq> []" by (auto simp: scan_rings_keys zs_def filter_empty_conv)
  then have "Min (set zs) \<in> set zs" by (intro Min_in) auto
  with lowest have "5 \<in> set zs" by (simp add: zs_def)
  then have "5 \<in> set (map z_coordinate (filter horizontal_face (map exterior (coordinates ftr))))"
    by (simp only: zs_def)
  moreover have "5 \<le> initial_min_h ''m''" by (simp add: initial_min_h_def)
  ultimately have "fst (scan_rings ''m'' (coordinates ftr)) =
      Min (set (map z_coordinate (filter horizontal_face (map exterior (coordinates ftr)))))"
    by (rule running_min_is_minimum)
  with lowest have min_h: "fst (scan_rings ''m'' (coordinates ftr)) = 5" by simp
  define fs where "fs = adjust_relative rnd True (fst (scan_rings ''m'' (coordinates ftr)))
      (splitted_feature_list (properties ftr) ?parts)"
  have run: "convert_feature rnd ''m'' True ftr = (Inr fs, [])"
    by (simp add: convert_feature_result fs_def)
  have "map (\<lambda>f. map_of f ''height'') fs =
          map (\<lambda>(xy, zs). Some (py_sub rnd (Max (set zs)) 5)) ?parts"
    unfolding fs_def using heights_before_conversion [of rnd True "''m''" "coordinates ftr" "properties ftr"]
    by (simp add: min_h)
  also have "\<dots> = map (\<lambda>h. Some (py_sub rnd h 5)) (map (\<lambda>(xy, zs). Max (set zs)) ?parts)"
    by (simp add: split_def comp_def)
  also have "\<dots> = [Some (py_sub rnd 10 5), Some (py_sub rnd 15 5)]"
    by (simp add: parts)
  also have "\<dots> = [Some (JNum 5), Some (JNum 10)]"
    using small_doubles py_sub_exact [of 10 5 rnd] py_sub_exact [of 15 5 rnd] by simp
  finally have heights: "map (\<lambda>f. map_of f ''height'') fs = [Some (JNum 5), Some (JNum 10)]" .
  then have ne: "fs \<noteq> []" by auto
  have call: "multipatch_convertor tr rnd g ''m'' True False p f fmt =
          (Inr (Some (to_crs tr (EPSG 4326) \<lparr>features = fs, crs = crs g\<rparr>)), [])"
    using ne
    by (simp add: multipatch_convertor_def single run and_then_Inr ret_def GeoDataFrame_cases
        save_or_return_cases)
  have frame: "map (\<lambda>f. map_of f ''height'') (features (to_crs tr (EPSG 4326) \<lparr>features = fs, crs = crs g\<rparr>)) =
        [Some (JNum 5), Some (JNum 10)]"
    using heights by (simp add: to_crs_def comp_def map_of_reproject_row)
  show ?thesis
  proof (intro conjI)
    from run heights
    show "\<exists>fs. convert_feature rnd ''m'' True ftr = (Inr fs, []) \<and>
            map (\<lambda>f. map_of f ''height'') fs = [Some (JNum 5), Some (JNum 10)]"
      by (intro exI [of _ fs] conjI)
    from call frame
    show "\<exists>gdf. multipatch_convertor tr rnd g ''m'' True False p f fmt = (Inr (Some gdf), []) \<and>
            map (\<lambda>f. map_of f ''height'') (features gdf) = [Some (JNum 5), Some (JNum 10)]"
      by (intro exI [of _ "to_crs tr (EPSG 4326) \<lparr>features = fs, crs = crs g\<rparr>"] conjI)
  qed
qed

theorem relative_height_example_witness:
  "map (\<lambda>(xy, zs). Max (set zs)) (snd (scan_rings ''m'' (coordinates two_part_feature))) = [10, 15] \<and>
   Min (set (map z_coordinate (filter horizontal_face (map exterior (coordinates two_part_feature))))) = 5 \<and>
   (\<exists>gdf. multipatch_convertor keep_coordinates no_rounding \<lparr>features = [two_part_feature], crs = EPSG 2263\<rparr>
             ''m'' True False ''./'' ''output'' ''geojson'' = (Inr (Some gdf), []) \<and>
          map (\<lambda>f. map_of f ''height'') (features gdf) = [Some (JNum 5), Some (JNum 10)])"
proof -
  have a: "map (\<lambda>(xy, zs). Max (set zs)) (snd (scan_rings ''m'' (coordinates two_part_feature))) = [10, 15]"
    by (simp add: model_defs example_defs)
  have b: "Min (set (map z_coordinate (filter horizontal_face (map exterior (coordinates two_part_feature))))) = 5"
    by (simp add: model_defs example_defs)
  have c: "features \<lparr>features = [two_part_feature], crs = EPSG 2263\<rparr> = [two_part_feature]" by simp
  from relative_height_example [OF a b c, of no_rounding keep_coordinates "''./''" "''output''" "''geojson''"]
  have "\<exists>gdf. multipatch_convertor keep_coordinates no_rounding \<lparr>features = [two_part_feature], crs = EPSG 2263\<rparr>
             ''m'' True False ''./'' ''output'' ''geojson'' = (Inr (Some gdf), []) \<and>
          map (\<lambda>f. map_of f ''height'') (features gdf) = [Some (JNum 5), Some (JNum 10)]"
    by (rule conjunct2)
  with a b show ?thesis by (intro conjI)
qed

section \<open>Input validation\<close>

text \<open>
  C3, as the code has it: the units are checked inside the loop over the features, so
  the invalid-units error is raised exactly when there is a feature to convert. For
  every input collection with at least one feature, a \<open>z_unit_in\<close> other than
  \<open>'m'\<close> and \<open>'ft'\<close> makes the conversion fail with \<open>NameError('wrongUnits')\<close>.
\<close>

theorem wrong_units_fails:
  "features g \<noteq> [] \<Longrightarrow> u \<noteq> ''m'' \<Longrightarrow> u \<noteq> ''ft'' \<Longrightarrow>
   fst (multipatch_convertor tr rnd g u r s p f fmt) = Inl WrongUnits"
proof (cases rule: multipatch_convertor_cases [of rnd u r g tr s p f fmt])
  case (completed fl)
  assume "features g \<noteq> []" "u \<noteq> ''m''" "u \<noteq> ''ft''"
  then show ?thesis
    using completed(1) convert_features_cases [of rnd u r "features g" "[]"] by simp
next
  case no_geometry
  assume "features g \<noteq> []" "u \<noteq> ''m''" "u \<noteq> ''ft''"
  then show ?thesis
    using no_geometry(1) convert_features_cases [of rnd u r "features g" "[]"] by simp
next
  case wrong_units
  then show ?thesis by simp
qed

theorem wrong_units_fails_witness:
  "features \<lparr>features = [slab_feature], crs = EPSG 2263\<rparr> \<noteq> [] \<and> ''yd'' \<noteq> ''m'' \<and> ''yd'' \<noteq> ''ft'' \<and>
   fst (multipatch_convertor keep_coordinates no_rounding \<lparr>features = [slab_feature], crs = EPSG 2263\<rparr>
          ''yd'' False False ''./'' ''output'' ''geojson'') = Inl WrongUnits"
  using wrong_units_fails [of "\<lparr>features = [slab_feature], crs = EPSG 2263\<rparr>" "''yd''"
      keep_coordinates no_rounding False False "''./''" "''output''" "''geojson''"]
  by simp

text \<open>
  On a collection without features the loop body never runs and the units are never
  looked at: the call with the unit \<open>'yd'\<close> does not raise the invalid-units error. It
  ends at the construction of the frame, which has no geometry column.
\<close>

theorem wrong_units_empty_collection:
  "''yd'' \<noteq> ''m'' \<and> ''yd'' \<noteq> ''ft'' \<and>
   multipatch_convertor keep_coordinates no_rounding \<lparr>features = [], crs = EPSG 2263\<rparr>
       ''yd'' False False ''./'' ''output'' ''geojson'' = (Inl NoGeometryColumn, [])"
  by (simp add: model_defs)

text \<open>
  C4, as the code has it: the output format is looked at only under \<open>if save\<close>, after
  the loop over the features and the construction of the frame. For every call with
  \<open>save=True\<close>, with the unit \<open>'m'\<close> or \<open>'ft'\<close>, on a collection in which some ring is
  kept, an \<open>out_format\<close> other than \<open>'geojson'\<close> and \<open>'shp'\<close> makes the conversion fail
  with \<open>NameError('wrongFormat')\<close>.
\<close>

theorem wrong_format_fails:
  assumes "s" and "fmt \<noteq> ''geojson''" and "fmt \<noteq> ''shp''"
    and "u = ''m'' \<or> u = ''ft''"
    and "\<exists>ftr \<in> set (features g). \<exists>p \<in> set (coordinates ftr). horizontal_face (exterior p)"
  shows "multipatch_convertor tr rnd g u r s p f fmt = (Inl WrongFormat, [])"
proof -
  from assms(4,5) obtain fl where
    "multipatch_convertor tr rnd g u r s p f fmt =
        save_or_return s p f fmt (to_crs tr (EPSG 4326) \<lparr>features = fl, crs = crs g\<rparr>)"
    by (rule reaches_output)
  with assms(1-3) show ?thesis by (simp add: save_or_return_cases)
qed

theorem wrong_format_fails_witness:
  "''kml'' \<noteq> ''geojson'' \<and> ''kml'' \<noteq> ''shp'' \<and>
   (\<exists>ftr \<in> set (features \<lparr>features = [box_feature], crs = EPSG 2263\<rparr>).
      \<exists>p \<in> set (coordinates ftr). horizontal_face (exterior p)) \<and>
   multipatch_convertor keep_coordinates no_rounding \<lparr>features = [box_feature], crs = EPSG 2263\<rparr>
          ''m'' False True ''./'' ''output'' ''kml'' = (Inl WrongFormat, [])"
proof -
  have kept: "\<exists>ftr \<in> set (features \<lparr>features = [box_feature], crs = EPSG 2263\<rparr>).
      \<exists>p \<in> set (coordinates ftr). horizontal_face (exterior p)"
    by (simp add: model_defs example_defs)
  have "multipatch_convertor keep_coordinates no_rounding \<lparr>features = [box_feature], crs = EPSG 2263\<rparr>
          ''m'' False True ''./'' ''output'' ''kml'' = (Inl WrongFormat, [])"
    by (rule wrong_format_fails [OF _ _ _ _ kept]) simp_all
  with kept show ?thesis by simp
qed

text \<open>
  With \<open>save=False\<close> the format \<open>'kml'\<close> is never looked at and the frame is returned;
  with \<open>save=True\<close> and the unit \<open>'yd'\<close> the call has already failed with the
  invalid-units error; and with \<open>save=True\<close> on a feature that has a wall only, no
  feature is emitted and the call ends at the construction of the frame.
\<close>

theorem wrong_format_not_checked:
  "''kml'' \<noteq> ''geojson'' \<and> ''kml'' \<noteq> ''shp'' \<and>
   multipatch_convertor keep_coordinates no_rounding \<lparr>features = [box_feature], crs = EPSG 2263\<rparr>
       ''m'' False False ''./'' ''output'' ''kml'' =
     (Inr (Some \<lparr>features = [[(''name'', JStr ''box''), (''height'', JNum 10),
        (''geometry'', Geom (Polygon [(0, 0), (4, 0), (4, 3), (0, 0)]))]], crs = EPSG 4326\<rparr>), []) \<and>
   multipatch_convertor keep_coordinates no_rounding \<lparr>features = [box_feature], crs = EPSG 2263\<rparr>
       ''yd'' False True ''./'' ''output'' ''kml'' = (Inl WrongUnits, []) \<and>
   multipatch_convertor keep_coordinates no_rounding \<lparr>features = [wall_feature], crs = EPSG 2263\<rparr>
       ''m'' False True ''./'' ''output'' ''kml'' = (Inl NoGeometryColumn, [])"
  by (simp add: model_defs example_defs)

section \<open>The diagnostics after the two raises\<close>

text \<open>
  C9: no execution of \<open>multipatch_convertor\<close> prints a diagnostic. The two \<open>print\<close>
  statements stand after a \<open>raise\<close>, so whatever the arguments, and in particular when
  the call aborts with the invalid-units or the invalid-format error, neither message is
  among the effects of the call.
\<close>

theorem diagnostics_never_printed:
  "Printed msg \<notin> set (snd (multipatch_convertor tr rnd g u r s p f fmt))"
  by (cases rule: multipatch_convertor_cases [of rnd u r g tr s p f fmt])
     (simp_all add: save_or_return_cases)

section \<open>Reprojection, saving and returning\<close>

text \<open>
  C8: whatever the CRS of the input, a frame that the call returns and a frame that the
  call writes to a file has the CRS EPSG:4326, and its geometries are the footprints of
  the building parts, feature by feature and part by part, with every vertex sent through
  the transformation from the CRS of the input to EPSG:4326. The reprojection changes
  nothing else: under every other key the rows hold what the loop over the features
  left there.
\<close>

theorem result_is_reprojected:
  "\<forall>gdf. fst (multipatch_convertor tr rnd g u r s p f fmt) = Inr (Some gdf) \<or>
         (\<exists>name drv. Wrote_file name drv gdf \<in> set (snd (multipatch_convertor tr rnd g u r s p f fmt))) \<longrightarrow>
      crs gdf = EPSG 4326 \<and>
      map (\<lambda>row. map_of row ''geometry'') (features gdf) =
        concat (map (\<lambda>ftr. map (\<lambda>(xy, zs). Some (Geom (Polygon (map (tr (crs g) (EPSG 4326)) xy))))
                              (snd (scan_rings u (coordinates ftr)))) (features g)) \<and>
      (\<exists>fl. convert_features rnd u r (features g) [] = (Inr fl, []) \<and>
            (\<forall>k. k \<noteq> ''geometry'' \<longrightarrow>
               map (\<lambda>row. map_of row k) (features gdf) = map (\<lambda>row. map_of row k) fl))"
proof (cases rule: multipatch_convertor_cases [of rnd u r g tr s p f fmt])
  case (completed fl)
  let ?t = "tr (crs g) (EPSG 4326)"
  let ?out = "to_crs tr (EPSG 4326) \<lparr>features = fl, crs = crs g\<rparr>"
  have label: "crs ?out = EPSG 4326"
    by (simp add: to_crs_def)
  have geo: "map (\<lambda>row. map_of row ''geometry'') fl =
        concat (map (\<lambda>ftr. map (\<lambda>(xy, zs). Some (Geom (Polygon xy)))
                              (snd (scan_rings u (coordinates ftr)))) (features g))"
    using convert_features_geometries [OF completed(1)] by simp
  have row: "map_of (reproject_row ?t row) ''geometry'' =
        map_option (\<lambda>v. case v of Geom (Polygon ps) \<Rightarrow> Geom (Polygon (map ?t ps)) | _ \<Rightarrow> v)
          (map_of row ''geometry'')" for row
    by (simp add: reproject_row_def update_conv' split: option.splits val.splits polygon.splits)
  have "map (\<lambda>row. map_of row ''geometry'') (features ?out) =
        map (map_option (\<lambda>v. case v of Geom (Polygon ps) \<Rightarrow> Geom (Polygon (map ?t ps)) | _ \<Rightarrow> v))
          (map (\<lambda>row. map_of row ''geometry'') fl)"
    by (simp add: to_crs_def comp_def row)
  also have "\<dots> = concat (map (\<lambda>ftr. map (\<lambda>(xy, zs). Some (Geom (Polygon (map ?t xy))))
                              (snd (scan_rings u (coordinates ftr)))) (features g))"
    unfolding geo by (simp add: map_concat comp_def split_def)
  finally have geometries: "map (\<lambda>row. map_of row ''geometry'') (features ?out) =
        concat (map (\<lambda>ftr. map (\<lambda>(xy, zs). Some (Geom (Polygon (map ?t xy))))
                              (snd (scan_rings u (coordinates ftr)))) (features g))" .
  have others: "\<forall>k. k \<noteq> ''geometry'' \<longrightarrow>
        map (\<lambda>row. map_of row k) (features ?out) = map (\<lambda>row. map_of row k) fl"
    by (simp add: to_crs_def comp_def map_of_reproject_row)
  have only: "gdf = ?out"
    if "fst (multipatch_convertor tr rnd g u r s p f fmt) = Inr (Some gdf) \<or>
         (\<exists>name drv. Wrote_file name drv gdf \<in> set (snd (multipatch_convertor tr rnd g u r s p f fmt)))"
    for gdf
    using that unfolding completed(3) by (auto simp: save_or_return_cases split: if_splits)
  show ?thesis
  proof (intro allI impI)
    fix gdf
    assume "fst (multipatch_convertor tr rnd g u r s p f fmt) = Inr (Some gdf) \<or>
         (\<exists>name drv. Wrote_file name drv gdf \<in> set (snd (multipatch_convertor tr rnd g u r s p f fmt)))"
    then have "gdf = ?out" by (rule only)
    with label geometries others completed(1)
    show "crs gdf = EPSG 4326 \<and>
      map (\<lambda>row. map_of row ''geometry'') (features gdf) =
        concat (map (\<lambda>ftr. map (\<lambda>(xy, zs). Some (Geom (Polygon (map (tr (crs g) (EPSG 4326)) xy))))
                              (snd (scan_rings u (coordinates ftr)))) (features g)) \<and>
      (\<exists>fl. convert_features rnd u r (features g) [] = (Inr fl, []) \<and>
            (\<forall>k. k \<noteq> ''geometry'' \<longrightarrow>
               map (\<lambda>row. map_of row k) (features gdf) = map (\<lambda>row. map_of row k) fl))"
      by blast
  qed
next
  case no_geometry
  then show ?thesis by simp
next
  case wrong_units
  then show ?thesis by simp
qed

text \<open>
  The box in a projected CRS, with a transformation that moves every point: the frame
  that is returned and the frame that is written hold the transformed footprint.
\<close>

theorem result_is_reprojected_witness:
  "(\<exists>gdf. fst (multipatch_convertor sample_projection no_rounding \<lparr>features = [box_feature], crs = EPSG 2263\<rparr>
              ''m'' False False ''./'' ''output'' ''geojson'') = Inr (Some gdf) \<and>
          crs gdf = EPSG 4326 \<and>
          map (\<lambda>row. map_of row ''geometry'') (features gdf) =
            [Some (Geom (Polygon [(- 74, 40), (- 72, 40), (- 72, 40.75), (- 74, 40)]))]) \<and>
   (\<exists>gdf. Wrote_file ''./output.shp'' ESRI_Shapefile gdf \<in>
            set (snd (multipatch_convertor sample_projection no_rounding \<lparr>features = [box_feature], crs = EPSG 2263\<rparr>
              ''m'' False True ''./'' ''output'' ''shp'')) \<and>
          crs gdf = EPSG 4326 \<and>
          map (\<lambda>row. map_of row ''geometry'') (features gdf) =
            [Some (Geom (Polygon [(- 74, 40), (- 72, 40), (- 72, 40.75), (- 74, 40)]))])"
proof -
  let ?g = "\<lparr>features = [box_feature], crs = EPSG 2263\<rparr>"
  let ?frame = "\<lparr>features = [[(''name'', JStr ''box''), (''height'', JNum 10),
        (''geometry'', Geom (Polygon [(- 74, 40), (- 72, 40), (- 72, 40.75), (- 74, 40)]))]],
        crs = EPSG 4326\<rparr>"
  have parts: "snd (scan_rings ''m'' (coordinates box_feature)) =
      [([(0, 0), (4, 0), (4, 3), (0, 0)], [10, 0])]"
    by (simp add: model_defs example_defs)
  have moved: "map (sample_projection (EPSG 2263) (EPSG 4326)) [(0, 0), (4, 0), (4, 3), (0, 0)] =
      [(- 74, 40), (- 72, 40), (- 72, 40.75), (- 74, 40)]"
    by (simp add: sample_projection_def)
  have a: "fst (multipatch_convertor sample_projection no_rounding ?g ''m'' False False ''./'' ''output'' ''geojson'') =
             Inr (Some ?frame)"
    by (simp add: model_defs example_defs)
  have b: "Wrote_file ''./output.shp'' ESRI_Shapefile ?frame \<in>
             set (snd (multipatch_convertor sample_projection no_rounding ?g ''m'' False True ''./'' ''output'' ''shp''))"
    by (simp add: model_defs example_defs)
  from a result_is_reprojected [of sample_projection no_rounding ?g "''m''" False False "''./''" "''output''" "''geojson''"]
  have "crs ?frame = EPSG 4326 \<and>
      map (\<lambda>row. map_of row ''geometry'') (features ?frame) =
        concat (map (\<lambda>ftr. map (\<lambda>(xy, zs). Some (Geom (Polygon (map (sample_projection (crs ?g) (EPSG 4326)) xy))))
                              (snd (scan_rings ''m'' (coordinates ftr)))) (features ?g))"
    by blast
  then have "crs ?frame = EPSG 4326 \<and>
      map (\<lambda>row. map_of row ''geometry'') (features ?frame) =
        [Some (Geom (Polygon [(- 74, 40), (- 72, 40), (- 72, 40.75), (- 74, 40)]))]"
    by (simp add: parts moved)
  with a have 1: "\<exists>gdf. fst (multipatch_convertor sample_projection no_rounding ?g
              ''m'' False False ''./'' ''output'' ''geojson'') = Inr (Some gdf) \<and> crs gdf = EPSG 4326 \<and>
          map (\<lambda>row. map_of row ''geometry'') (features gdf) =
            [Some (Geom (Polygon [(- 74, 40), (- 72, 40), (- 72, 40.75), (- 74, 40)]))]"
    by (intro exI [of _ ?frame]) simp
  from b result_is_reprojected [of sample_projection no_rounding ?g "''m''" False True "''./''" "''output''" "''shp''"]
  have "crs ?frame = EPSG 4326 \<and>
      map (\<lambda>row. map_of row ''geometry'') (features ?frame) =
        concat (map (\<lambda>ftr. map (\<lambda>(xy, zs). Some (Geom (Polygon (map (sample_projection (crs ?g) (EPSG 4326)) xy))))
                              (snd (scan_rings ''m'' (coordinates ftr)))) (features ?g))"
    by blast
  then have "crs ?frame = EPSG 4326 \<and>
      map (\<lambda>row. map_of row ''geometry'') (features ?frame) =
        [Some (Geom (Polygon [(- 74, 40), (- 72, 40), (- 72, 40.75), (- 74, 40)]))]"
    by (simp add: parts moved)
  with b have 2: "\<exists>gdf. Wrote_file ''./output.shp'' ESRI_Shapefile gdf \<in>
            set (snd (multipatch_convertor sample_projection no_rounding ?g ''m'' False True ''./'' ''output'' ''shp'')) \<and>
          crs gdf = EPSG 4326 \<and>
          map (\<lambda>row. map_of row ''geometry'') (features gdf) =
            [Some (Geom (Polygon [(- 74, 40), (- 72, 40), (- 72, 40.75), (- 74, 40)]))]"
    by (intro exI [of _ ?frame]) simp
  from 1 2 show ?thesis by (rule conjI)
qed

text \<open>
  C10, as the code has it: the saving and returning of lines 128 to 139 is reached only
  when the loop over the features has not raised and the frame could be built. For
  every call with the unit \<open>'m'\<close> or \<open>'ft'\<close> on a collection in which some ring is kept:
  with \<open>save=True\<close> and \<open>out_format\<close> \<open>'geojson'\<close> or \<open>'shp'\<close> the call writes the one file
  \<open>path + filename + extension\<close> and returns \<open>None\<close>, and a GeoDataFrame is returned if
  and only if \<open>save=False\<close>.
\<close>

theorem saves_or_returns:
  assumes "u = ''m'' \<or> u = ''ft''"
    and "\<exists>ftr \<in> set (features g). \<exists>p \<in> set (coordinates ftr). horizontal_face (exterior p)"
  shows "(s \<and> fmt = ''geojson'' \<longrightarrow>
      (\<exists>gdf. multipatch_convertor tr rnd g u r s p f fmt =
               (Inr None, [Wrote_file (p @ f @ ''.geojson'') GeoJSON gdf]))) \<and>
   (s \<and> fmt = ''shp'' \<longrightarrow>
      (\<exists>gdf. multipatch_convertor tr rnd g u r s p f fmt =
               (Inr None, [Wrote_file (p @ f @ ''.shp'') ESRI_Shapefile gdf]))) \<and>
   ((\<exists>gdf. fst (multipatch_convertor tr rnd g u r s p f fmt) = Inr (Some gdf)) \<longleftrightarrow> \<not> s)"
proof -
  from assms obtain fl where
    "multipatch_convertor tr rnd g u r s p f fmt =
        save_or_return s p f fmt (to_crs tr (EPSG 4326) \<lparr>features = fl, crs = crs g\<rparr>)"
    by (rule reaches_output)
  then show ?thesis by (auto simp: save_or_return_cases)
qed

theorem saves_or_returns_witness:
  "(\<exists>ftr \<in> set (features \<lparr>features = [box_feature], crs = EPSG 2263\<rparr>).
      \<exists>p \<in> set (coordinates ftr). horizontal_face (exterior p)) \<and>
   (\<exists>gdf. multipatch_convertor keep_coordinates no_rounding \<lparr>features = [box_feature], crs = EPSG 2263\<rparr>
          ''m'' False True ''./'' ''output'' ''geojson'' =
        (Inr None, [Wrote_file ''./output.geojson'' GeoJSON gdf])) \<and>
   (\<exists>gdf. fst (multipatch_convertor keep_coordinates no_rounding \<lparr>features = [box_feature], crs = EPSG 2263\<rparr>
          ''m'' False False ''./'' ''output'' ''geojson'') = Inr (Some gdf))"
proof -
  let ?g = "\<lparr>features = [box_feature], crs = EPSG 2263\<rparr>"
  have kept: "\<exists>ftr \<in> set (features ?g). \<exists>p \<in> set (coordinates ftr). horizontal_face (exterior p)"
    by (simp add: model_defs example_defs)
  have unit: "''m'' = ''m'' \<or> ''m'' = ''ft''" by simp
  from saves_or_returns [OF unit kept, of True "''geojson''" keep_coordinates no_rounding False "''./''" "''output''"]
  have 1: "\<exists>gdf. multipatch_convertor keep_coordinates no_rounding ?g
          ''m'' False True ''./'' ''output'' ''geojson'' =
        (Inr None, [Wrote_file ''./output.geojson'' GeoJSON gdf])"
    by simp
  from saves_or_returns [OF unit kept, of False "''geojson''" keep_coordinates no_rounding False "''./''" "''output''"]
  have 2: "\<exists>gdf. fst (multipatch_convertor keep_coordinates no_rounding ?g
          ''m'' False False ''./'' ''output'' ''geojson'') = Inr (Some gdf)"
    by simp
  from kept 1 2 show ?thesis by (intro conjI)
qed

text \<open>
  With the unit \<open>'yd'\<close> and a feature to convert, the call with \<open>save=True\<close> and the
  format \<open>'geojson'\<close> writes no file, and the call with \<open>save=False\<close> returns no frame:
  both abort with the invalid-units error. On a feature that has a wall only, with
  meters, the call with \<open>save=True\<close> writes no file and the call with \<open>save=False\<close>
  returns no frame either: no feature is emitted, and both end at the construction of
  the frame.
\<close>

theorem saves_or_returns_not_reached:
  "multipatch_convertor keep_coordinates no_rounding \<lparr>features = [slab_feature], crs = EPSG 2263\<rparr>
       ''yd'' False True ''./'' ''output'' ''geojson'' = (Inl WrongUnits, []) \<and>
   multipatch_convertor keep_coordinates no_rounding \<lparr>features = [slab_feature], crs = EPSG 2263\<rparr>
       ''yd'' False False ''./'' ''output'' ''geojson'' = (Inl WrongUnits, []) \<and>
   multipatch_convertor keep_coordinates no_rounding \<lparr>features = [wall_feature], crs = EPSG 2263\<rparr>
       ''m'' False True ''./'' ''output'' ''geojson'' = (Inl NoGeometryColumn, []) \<and>
   multipatch_convertor keep_coordinates no_rounding \<lparr>features = [wall_feature], crs = EPSG 2263\<rparr>
       ''m'' False False ''./'' ''output'' ''geojson'' = (Inl NoGeometryColumn, [])"
  by (simp add: model_defs example_defs)

end
